theory Spec2Isabelle
  imports Main "HOL-Library.Word"
begin

unbundle bit_operations_syntax

section \<open>JavaScript values\<close>

text \<open>
  The two functions verified here are \<open>verifyWebhookSignature\<close> and
  \<open>validateWebhookTimestamp\<close> of \<open>src/lib/yoco.ts\<close>.

  A JavaScript string is a sequence of 16-bit code units, and is modelled as one; \<open>str\<close>
  writes an ASCII literal. A \<open>Buffer\<close> is a list of 8-bit words.
\<close>

type_synonym byte = "8 word"
type_synonym buffer = "byte list"
type_synonym word32 = "32 word"
type_synonym code_unit = "16 word"
type_synonym js_string = "code_unit list"

definition cu :: "char \<Rightarrow> code_unit" where
  "cu c = word_of_nat (of_char c)"

definition str :: "string \<Rightarrow> js_string" where
  "str s = map cu s"

datatype js_error = TypeError | RangeError

subsection \<open>Numbers\<close>

text \<open>
  A JavaScript number is an IEEE 754 double: \<open>NaN\<close>, an infinity, or a finite value
  \<open>m * 2^e\<close>, written \<open>Dbl m e\<close>, with \<open>\<bar>m\<bar> < 2^53\<close> (up to the power of two
  itself) and \<open>-1074 \<le> e\<close>. The sign of zero plays no part in what follows and is
  not kept.

  \<open>round_to_double m e\<close> is the double nearest to \<open>m * 2^e\<close>, ties to the even
  mantissa: the mantissa is cut to 53 bits, or to the bits above \<open>2^-1074\<close> when there
  are fewer, and a result of \<open>2^1024\<close> or more is an infinity. Every arithmetic
  operation is the exact operation followed by this rounding.
\<close>

datatype number = NaN | PosInfinity | NegInfinity | Dbl int int

function bit_length :: "int \<Rightarrow> nat" where
  "bit_length n = (if n \<le> 0 then 0 else Suc (bit_length (n div 2)))"
  by pat_completeness auto
termination
  by (relation "measure nat") auto

declare bit_length.simps [simp del]

definition round_to_double :: "int \<Rightarrow> int \<Rightarrow> number" where
  "round_to_double m e =
     (let a = \<bar>m\<bar>;
          s = max (bit_length a - 53) (nat (- 1074 - e));
          q = 2 ^ s;
          hi = a div q;
          r = a mod q;
          hi' = (if q < 2 * r \<or> (2 * r = q \<and> odd hi) then hi + 1 else hi);
          e' = e + int s
      in if 1024 < int (bit_length hi') + e'
         then (if m < 0 then NegInfinity else PosInfinity)
         else Dbl (if m < 0 then - hi' else hi') e')"

text \<open>A number that comes in from outside is a double: the one nearest to what is given.\<close>

fun as_double :: "number \<Rightarrow> number" where
  "as_double (Dbl m e) = round_to_double m e"
| "as_double x = x"

fun num_sign :: "number \<Rightarrow> int" where
  "num_sign NaN = 0"
| "num_sign PosInfinity = 1"
| "num_sign NegInfinity = - 1"
| "num_sign (Dbl m e) = sgn m"

text \<open>\<open>a * b\<close>: an infinity times zero is \<open>NaN\<close>.\<close>

fun num_times :: "number \<Rightarrow> number \<Rightarrow> number" where
  "num_times NaN b = NaN"
| "num_times a NaN = NaN"
| "num_times (Dbl m1 e1) (Dbl m2 e2) = round_to_double (m1 * m2) (e1 + e2)"
| "num_times a b =
     (let s = num_sign a * num_sign b
      in if s = 0 then NaN else if 0 < s then PosInfinity else NegInfinity)"

text \<open>\<open>a - b\<close>: the difference of two equal infinities is \<open>NaN\<close>.\<close>

fun num_minus :: "number \<Rightarrow> number \<Rightarrow> number" where
  "num_minus NaN b = NaN"
| "num_minus a NaN = NaN"
| "num_minus (Dbl m1 e1) (Dbl m2 e2) =
     (let e = min e1 e2
      in round_to_double (m1 * 2 ^ nat (e1 - e) - m2 * 2 ^ nat (e2 - e)) e)"
| "num_minus PosInfinity PosInfinity = NaN"
| "num_minus NegInfinity NegInfinity = NaN"
| "num_minus PosInfinity b = PosInfinity"
| "num_minus NegInfinity b = NegInfinity"
| "num_minus a PosInfinity = NegInfinity"
| "num_minus a NegInfinity = PosInfinity"

fun Math_abs :: "number \<Rightarrow> number" where
  "Math_abs NaN = NaN"
| "Math_abs PosInfinity = PosInfinity"
| "Math_abs NegInfinity = PosInfinity"
| "Math_abs (Dbl m e) = Dbl \<bar>m\<bar> e"

text \<open>\<open>a <= b\<close>: every comparison with \<open>NaN\<close> is false.\<close>

fun num_le :: "number \<Rightarrow> number \<Rightarrow> bool" where
  "num_le NaN b = False"
| "num_le a NaN = False"
| "num_le (Dbl m1 e1) (Dbl m2 e2) =
     (let e = min e1 e2 in m1 * 2 ^ nat (e1 - e) \<le> m2 * 2 ^ nat (e2 - e))"
| "num_le NegInfinity b = True"
| "num_le a PosInfinity = True"
| "num_le a b = False"

subsection \<open>Arrays and strings\<close>

text \<open>\<open>arr[i]\<close>: reading past the end of an array gives \<open>undefined\<close>, here \<open>None\<close>.\<close>

fun js_index :: "'a list \<Rightarrow> nat \<Rightarrow> 'a option" where
  "js_index [] i = None"
| "js_index (x # xs) 0 = Some x"
| "js_index (x # xs) (Suc i) = js_index xs i"

text \<open>
  \<open>s.split(sep)\<close> for a separator of one code unit: the pieces between the separators,
  empty pieces included; the result always has at least one piece.
\<close>

fun js_split :: "code_unit \<Rightarrow> js_string \<Rightarrow> js_string list" where
  "js_split sep [] = [[]]"
| "js_split sep (c # cs) =
     (if c = sep then [] # js_split sep cs
      else (case js_split sep cs of
              [] \<Rightarrow> [[c]]
            | w # ws \<Rightarrow> (c # w) # ws))"

subsection \<open>parseInt\<close>

text \<open>
  \<open>parseInt(string)\<close> with no radix: leading white space and line terminators are
  dropped, then an optional sign, then the prefix \<open>0x\<close> or \<open>0X\<close> selects radix 16
  (radix 10 otherwise), then the longest run of digits of that radix is read; with no digit
  the result is \<open>NaN\<close>, otherwise the double nearest to the integer read.
\<close>

definition is_white_space :: "code_unit \<Rightarrow> bool" where
  "is_white_space c =
     (let n = uint c in
      n \<in> {0x09, 0x0A, 0x0B, 0x0C, 0x0D, 0x20, 0xA0, 0x1680, 0x2028, 0x2029, 0x202F, 0x205F,
            0x3000, 0xFEFF}
      \<or> (0x2000 \<le> n \<and> n \<le> 0x200A))"

definition trimStart :: "js_string \<Rightarrow> js_string" where
  "trimStart s = dropWhile is_white_space s"

definition digit_of :: "nat \<Rightarrow> code_unit \<Rightarrow> nat option" where
  "digit_of radix c =
     (let n = unat c;
          v = (if 48 \<le> n \<and> n \<le> 57 then Some (n - 48)
               else if 97 \<le> n \<and> n \<le> 122 then Some (n - 87)
               else if 65 \<le> n \<and> n \<le> 90 then Some (n - 55)
               else None)
      in case v of
           None \<Rightarrow> None
         | Some d \<Rightarrow> if d < radix then Some d else None)"

definition is_digit :: "nat \<Rightarrow> code_unit \<Rightarrow> bool" where
  "is_digit radix c = (digit_of radix c \<noteq> None)"

definition digits_value :: "nat \<Rightarrow> js_string \<Rightarrow> int" where
  "digits_value radix ds =
     foldl (\<lambda>acc c. case digit_of radix c of
                       None \<Rightarrow> acc
                     | Some d \<Rightarrow> acc * int radix + int d) 0 ds"

fun strip_sign :: "js_string \<Rightarrow> int \<times> js_string" where
  "strip_sign (c # cs) =
     (if c = cu CHR ''-'' then (- 1, cs) else if c = cu CHR ''+'' then (1, cs) else (1, c # cs))"
| "strip_sign [] = (1, [])"

fun strip_prefix :: "js_string \<Rightarrow> nat \<times> js_string" where
  "strip_prefix (c # d # cs) =
     (if c = cu CHR ''0'' \<and> (d = cu CHR ''x'' \<or> d = cu CHR ''X'') then (16, cs)
      else (10, c # d # cs))"
| "strip_prefix cs = (10, cs)"

definition parseInt :: "js_string \<Rightarrow> number" where
  "parseInt inputString =
     (case strip_sign (trimStart inputString) of
        (sign, s1) \<Rightarrow>
          (case strip_prefix s1 of
             (radix, s2) \<Rightarrow>
               (let z = takeWhile (is_digit radix) s2
                in if z = [] then NaN else round_to_double (sign * digits_value radix z) 0)))"

section \<open>The runtime\<close>

subsection \<open>Buffer\<close>

text \<open>
  \<open>Buffer\<close> is a global of Node. \<open>Buffer.from(string)\<close> encodes the string as UTF-8: a
  surrogate pair gives four bytes, a surrogate on its own gives the three bytes of U+FFFD.
  \<open>Buffer.from(value)\<close> and \<open>Buffer.from(value, 'base64')\<close> throw a \<open>TypeError\<close> when
  the value is \<open>undefined\<close>.
\<close>

definition utf8_unit :: "int \<Rightarrow> buffer" where
  "utf8_unit n =
     (if n < 0x80 then [word_of_int n]
      else if n < 0x800 then [word_of_int (0xC0 + n div 64), word_of_int (0x80 + n mod 64)]
      else if 0xD800 \<le> n \<and> n < 0xE000 then [0xEF, 0xBF, 0xBD]
      else [word_of_int (0xE0 + n div 4096), word_of_int (0x80 + n div 64 mod 64),
            word_of_int (0x80 + n mod 64)])"

definition utf8_pair :: "int \<Rightarrow> int \<Rightarrow> buffer" where
  "utf8_pair hi lo =
     (let p = 0x10000 + (hi - 0xD800) * 1024 + (lo - 0xDC00)
      in [word_of_int (0xF0 + p div 262144), word_of_int (0x80 + p div 4096 mod 64),
          word_of_int (0x80 + p div 64 mod 64), word_of_int (0x80 + p mod 64)])"

fun utf8_encode :: "js_string \<Rightarrow> buffer" where
  "utf8_encode [] = []"
| "utf8_encode [c] = utf8_unit (uint c)"
| "utf8_encode (c # d # rest) =
     (if 0xD800 \<le> uint c \<and> uint c < 0xDC00 \<and> 0xDC00 \<le> uint d \<and> uint d < 0xE000
      then utf8_pair (uint c) (uint d) @ utf8_encode rest
      else utf8_unit (uint c) @ utf8_encode (d # rest))"

definition Buffer_from :: "js_string option \<Rightarrow> js_error + buffer" where
  "Buffer_from v = (case v of None \<Rightarrow> Inl TypeError | Some s \<Rightarrow> Inr (utf8_encode s))"

subsection \<open>Base64\<close>

definition base64_alphabet :: string where
  "base64_alphabet = ''ABCDEFGHIJKLMNOPQRSTUVWXYZabcdefghijklmnopqrstuvwxyz0123456789+/''"

definition b64 :: "nat \<Rightarrow> code_unit" where
  "b64 n = cu (base64_alphabet ! (n mod 64))"

text \<open>\<open>digest('base64')\<close>: the standard alphabet, padded with \<open>=\<close>.\<close>

fun base64_encode :: "buffer \<Rightarrow> js_string" where
  "base64_encode [] = []"
| "base64_encode [a] =
     [b64 (unat a div 4), b64 (unat a mod 4 * 16), cu CHR ''='', cu CHR ''='']"
| "base64_encode [a, b] =
     [b64 (unat a div 4), b64 (unat a mod 4 * 16 + unat b div 16),
      b64 (unat b mod 16 * 4), cu CHR ''='']"
| "base64_encode (a # b # c # rest) =
     [b64 (unat a div 4), b64 (unat a mod 4 * 16 + unat b div 16),
      b64 (unat b mod 16 * 4 + unat c div 64), b64 (unat c mod 64)] @ base64_encode rest"

text \<open>
  Node's decoder does not fail. It looks at the low byte of each code unit, accepts the
  standard and the URL-safe alphabet, skips every other byte, and stops at the first
  \<open>=\<close>. Four characters give three bytes; a final group of two or three characters gives
  one or two bytes, a single left-over character gives none.
\<close>

definition unbase64 :: "nat \<Rightarrow> nat option" where
  "unbase64 n =
     (if 65 \<le> n \<and> n \<le> 90 then Some (n - 65)
      else if 97 \<le> n \<and> n \<le> 122 then Some (n - 71)
      else if 48 \<le> n \<and> n \<le> 57 then Some (n + 4)
      else if n = 43 \<or> n = 45 then Some 62
      else if n = 47 \<or> n = 95 then Some 63
      else None)"

fun sextets :: "js_string \<Rightarrow> nat list" where
  "sextets [] = []"
| "sextets (c # cs) =
     (let low = unat c mod 256 in
      if low = 61 then []
      else (case unbase64 low of None \<Rightarrow> sextets cs | Some v \<Rightarrow> v # sextets cs))"

fun base64_bytes :: "nat list \<Rightarrow> buffer" where
  "base64_bytes (a # b # c # d # rest) =
     [word_of_nat (a * 4 + b div 16), word_of_nat (b mod 16 * 16 + c div 4),
      word_of_nat (c mod 4 * 64 + d)] @ base64_bytes rest"
| "base64_bytes [a, b, c] =
     [word_of_nat (a * 4 + b div 16), word_of_nat (b mod 16 * 16 + c div 4)]"
| "base64_bytes [a, b] = [word_of_nat (a * 4 + b div 16)]"
| "base64_bytes _ = []"

definition base64_decode :: "js_string \<Rightarrow> buffer" where
  "base64_decode s = base64_bytes (sextets s)"

definition Buffer_from_base64 :: "js_string option \<Rightarrow> js_error + buffer" where
  "Buffer_from_base64 v =
     (case v of None \<Rightarrow> Inl TypeError | Some s \<Rightarrow> Inr (base64_decode s))"

subsection \<open>HMAC-SHA256\<close>

text \<open>The function the specification names, and what the \<open>crypto\<close> module of Node computes.\<close>

text \<open>
  The round constants are the first 32 bits of the fractional parts of the cube roots of
  the first 64 primes: the integer cube root of \<open>p * 2^96\<close>, taken modulo \<open>2^32\<close>.
  \<open>cube_root_bits k r n\<close> settles the \<open>k\<close> low bits of the root, from the highest down.
\<close>

fun cube_root_bits :: "nat \<Rightarrow> int \<Rightarrow> int \<Rightarrow> int" where
  "cube_root_bits 0 r n = r"
| "cube_root_bits (Suc k) r n =
     (let c = r + 2 ^ k in
      if c * c * c \<le> n then cube_root_bits k c n else cube_root_bits k r n)"

definition round_constant :: "int \<Rightarrow> word32" where
  "round_constant p = word_of_int (cube_root_bits 35 0 (p * 2 ^ 96))"

definition primes64 :: "int list" where
  "primes64 =
     [2, 3, 5, 7, 11, 13, 17, 19, 23, 29, 31, 37, 41, 43, 47, 53, 59, 61, 67, 71, 73, 79,
      83, 89, 97, 101, 103, 107, 109, 113, 127, 131, 137, 139, 149, 151, 157, 163, 167, 173,
      179, 181, 191, 193, 197, 199, 211, 223, 227, 229, 233, 239, 241, 251, 257, 263, 269,
      271, 277, 281, 283, 293, 307, 311]"

definition K256 :: "word32 list" where
  "K256 = map round_constant primes64"

definition bsig0 :: "word32 \<Rightarrow> word32" where
  "bsig0 x = word_rotr 2 x XOR word_rotr 13 x XOR word_rotr 22 x"

definition bsig1 :: "word32 \<Rightarrow> word32" where
  "bsig1 x = word_rotr 6 x XOR word_rotr 11 x XOR word_rotr 25 x"

definition ssig0 :: "word32 \<Rightarrow> word32" where
  "ssig0 x = word_rotr 7 x XOR word_rotr 18 x XOR drop_bit 3 x"

definition ssig1 :: "word32 \<Rightarrow> word32" where
  "ssig1 x = word_rotr 17 x XOR word_rotr 19 x XOR drop_bit 10 x"

definition ch :: "word32 \<Rightarrow> word32 \<Rightarrow> word32 \<Rightarrow> word32" where
  "ch x y z = (x AND y) XOR (NOT x AND z)"

definition maj :: "word32 \<Rightarrow> word32 \<Rightarrow> word32 \<Rightarrow> word32" where
  "maj x y z = (x AND y) XOR (x AND z) XOR (y AND z)"

text \<open>Big-endian packing of bytes into 32-bit words, and back.\<close>

fun be_words :: "buffer \<Rightarrow> word32 list" where
  "be_words (a # b # c # d # rest) =
     (push_bit 24 (ucast a) OR push_bit 16 (ucast b) OR push_bit 8 (ucast c) OR ucast d)
       # be_words rest"
| "be_words _ = []"

definition be_bytes :: "word32 \<Rightarrow> buffer" where
  "be_bytes w = [ucast (drop_bit 24 w), ucast (drop_bit 16 w), ucast (drop_bit 8 w), ucast w]"

definition be_bytes64 :: "64 word \<Rightarrow> buffer" where
  "be_bytes64 n = map (\<lambda>i. ucast (drop_bit (8 * i) n)) [7, 6, 5, 4, 3, 2, 1, 0]"

definition sha_pad :: "buffer \<Rightarrow> buffer" where
  "sha_pad m =
     m @ [0x80] @ replicate ((119 - length m mod 64) mod 64) 0
       @ be_bytes64 (word_of_nat (8 * length m))"

text \<open>The message schedule, most recent word first.\<close>

fun schedule :: "nat \<Rightarrow> word32 list \<Rightarrow> word32 list" where
  "schedule 0 ws = ws"
| "schedule (Suc n) ws =
     schedule n ((ssig1 (ws ! 1) + ws ! 6 + ssig0 (ws ! 14) + ws ! 15) # ws)"

type_synonym sha_state =
  "word32 \<times> word32 \<times> word32 \<times> word32 \<times> word32 \<times> word32 \<times> word32 \<times> word32"

fun sha_round :: "sha_state \<Rightarrow> word32 \<times> word32 \<Rightarrow> sha_state" where
  "sha_round (a, b, c, d, e, f, g, h) (k, w) =
     (let t1 = h + bsig1 e + ch e f g + k + w;
          t2 = bsig0 a + maj a b c
      in (t1 + t2, a, b, c, d + t1, e, f, g))"

fun sha_add :: "sha_state \<Rightarrow> sha_state \<Rightarrow> sha_state" where
  "sha_add (a, b, c, d, e, f, g, h) (a', b', c', d', e', f', g', h') =
     (a + a', b + b', c + c', d + d', e + e', f + f', g + g', h + h')"

definition sha_block :: "word32 list \<Rightarrow> sha_state \<Rightarrow> word32 list \<Rightarrow> sha_state" where
  "sha_block ks s blk = sha_add s (foldl sha_round s (zip ks (rev (schedule 48 (rev blk)))))"

fun sha_blocks :: "word32 list \<Rightarrow> nat \<Rightarrow> sha_state \<Rightarrow> word32 list \<Rightarrow> sha_state" where
  "sha_blocks ks 0 s ws = s"
| "sha_blocks ks (Suc n) s ws = sha_blocks ks n (sha_block ks s (take 16 ws)) (drop 16 ws)"

text \<open>The hash with the round constants \<open>ks\<close>; SHA-256 is the one with \<open>K256\<close>.\<close>

definition sha256_with :: "word32 list \<Rightarrow> buffer \<Rightarrow> buffer" where
  "sha256_with ks m =
     (let ws = be_words (sha_pad m) in
      case sha_blocks ks (length ws div 16)
             (0x6a09e667, 0xbb67ae85, 0x3c6ef372, 0xa54ff53a,
              0x510e527f, 0x9b05688c, 0x1f83d9ab, 0x5be0cd19) ws of
        (a, b, c, d, e, f, g, h) \<Rightarrow> concat (map be_bytes [a, b, c, d, e, f, g, h]))"

definition sha256 :: "buffer \<Rightarrow> buffer" where
  "sha256 m = sha256_with K256 m"

text \<open>HMAC over a hash function with 64-byte blocks.\<close>

definition hmac_with :: "(buffer \<Rightarrow> buffer) \<Rightarrow> buffer \<Rightarrow> buffer \<Rightarrow> buffer" where
  "hmac_with H key msg =
     (let k0 = (if length key > 64 then H key else key);
          k = k0 @ replicate (64 - length k0) 0
      in H (map (\<lambda>b. b XOR 0x5c) k @ H (map (\<lambda>b. b XOR 0x36) k @ msg)))"

definition hmac_sha256 :: "buffer \<Rightarrow> buffer \<Rightarrow> buffer" where
  "hmac_sha256 key msg = hmac_with (sha256_with K256) key msg"

subsection \<open>crypto\<close>

text \<open>
  \<open>yoco.ts\<close> has no import of \<open>crypto\<close>. The name is therefore the global of that
  name, the Web Crypto object, which has \<open>subtle\<close>, \<open>getRandomValues\<close> and
  \<open>randomUUID\<close>, and neither \<open>createHmac\<close> nor \<open>timingSafeEqual\<close>. A member that
  is missing reads as \<open>undefined\<close>, and calling it throws a \<open>TypeError\<close>.

  An object standing for \<open>crypto\<close> is modelled by the two members the code calls.
  \<open>createHmac\<close> stands for the whole chain
  \<open>createHmac('sha256', key).update(content).digest('base64')\<close>.
\<close>

record crypto_object =
  createHmac :: "(buffer \<Rightarrow> js_string \<Rightarrow> js_string) option"
  timingSafeEqual :: "(buffer \<Rightarrow> buffer \<Rightarrow> js_error + bool) option"

definition crypto :: crypto_object where
  "crypto = \<lparr> createHmac = None, timingSafeEqual = None \<rparr>"

text \<open>
  What the \<open>crypto\<close> module of Node provides under these names, had it been imported:
  the base64 HMAC-SHA256 of the UTF-8 bytes of the content, and a comparison that throws a
  \<open>RangeError\<close> on buffers of different lengths.
\<close>

definition createHmac_sha256_base64 :: "buffer \<Rightarrow> js_string \<Rightarrow> js_string" where
  "createHmac_sha256_base64 key content = base64_encode (hmac_sha256 key (utf8_encode content))"

definition node_timingSafeEqual :: "buffer \<Rightarrow> buffer \<Rightarrow> js_error + bool" where
  "node_timingSafeEqual a b = (if length a \<noteq> length b then Inl RangeError else Inr (a = b))"

definition node_crypto :: crypto_object where
  "node_crypto = \<lparr> createHmac = Some createHmac_sha256_base64,
                    timingSafeEqual = Some node_timingSafeEqual \<rparr>"

section \<open>Configuration\<close>

text \<open>
  \<open>YOCO_CONFIG\<close> is built once from the process environment; a variable that is unset
  or empty gives the empty string (\<open>process.env.X || ''\<close>).
\<close>

record yoco_config =
  publicKey :: js_string
  secretKey :: js_string
  webhookSecret :: js_string
  currency :: js_string
  name :: js_string
  description :: js_string

definition env_or_empty :: "(string \<rightharpoonup> js_string) \<Rightarrow> string \<Rightarrow> js_string" where
  "env_or_empty env var = (case env var of None \<Rightarrow> [] | Some v \<Rightarrow> v)"

definition YOCO_CONFIG :: "(string \<rightharpoonup> js_string) \<Rightarrow> yoco_config" where
  "YOCO_CONFIG env =
     \<lparr> publicKey = env_or_empty env ''NEXT_PUBLIC_YOCO_PUBLIC_KEY'',
       secretKey = env_or_empty env ''YOCO_SECRET_KEY'',
       webhookSecret = env_or_empty env ''YOCO_WEBHOOK_SECRET'',
       currency = str ''ZAR'',
       name = str ''Counterfit'',
       description = str ''Luxury Streetwear'' \<rparr>"

section \<open>The webhook verifier\<close>

text \<open>
  A call is modelled by what it does, in order, and what it returns or throws: the
  console messages and the calls into \<open>crypto\<close> that are made are recorded as events.
\<close>

datatype event =
    ConsoleWarn
  | ConsoleLog bool
  | ConsoleError js_error
  | CreateHmac buffer js_string
  | TimingSafeEqual buffer buffer

type_synonym outcome = "event list \<times> (js_error + bool)"

text \<open>\<open>try { ... } catch (error) { console.error(...); return false }\<close>\<close>

fun catch_return_false :: "outcome \<Rightarrow> outcome" where
  "catch_return_false (evs, Inl e) = (evs @ [ConsoleError e], Inr False)"
| "catch_return_false (evs, Inr b) = (evs, Inr b)"

subsection \<open>verifyWebhookSignature\<close>

definition signedContent :: "js_string \<Rightarrow> js_string \<Rightarrow> js_string \<Rightarrow> js_string" where
  "signedContent webhookId webhookTimestamp requestBody =
     webhookId @ str ''.'' @ webhookTimestamp @ str ''.'' @ requestBody"

text \<open>\<open>Buffer.from(YOCO_CONFIG.webhookSecret.split('_')[1], 'base64')\<close>\<close>

definition secretBytes :: "yoco_config \<Rightarrow> js_error + buffer" where
  "secretBytes cfg =
     Buffer_from_base64 (js_index (js_split (cu CHR ''_'') (webhookSecret cfg)) 1)"

text \<open>\<open>webhookSignature.split(' ')[0].split(',')[1]\<close>; calling \<open>split\<close> on
  \<open>undefined\<close> would throw.\<close>

definition primarySignature :: "js_string \<Rightarrow> js_error + js_string option" where
  "primarySignature webhookSignature =
     (case js_index (js_split (cu CHR '' '') webhookSignature) 0 of
        None \<Rightarrow> Inl TypeError
      | Some entry \<Rightarrow> Inr (js_index (js_split (cu CHR '','') entry) 1))"

text \<open>
  The body of the \<open>try\<close> block, for the object \<open>c\<close> that the name \<open>crypto\<close>
  denotes. The arguments of a call are evaluated before a missing callee throws.
\<close>

definition verifyWebhookSignature_try ::
  "crypto_object \<Rightarrow> yoco_config \<Rightarrow> js_string \<Rightarrow> js_string \<Rightarrow> js_string \<Rightarrow> js_string
     \<Rightarrow> outcome" where
  "verifyWebhookSignature_try c cfg webhookId webhookTimestamp requestBody webhookSignature =
     (if webhookSecret cfg = [] then ([ConsoleWarn], Inr False)
      else
        let content = signedContent webhookId webhookTimestamp requestBody in
        case secretBytes cfg of
          Inl e \<Rightarrow> ([], Inl e)
        | Inr key \<Rightarrow>
            (case createHmac c of
               None \<Rightarrow> ([], Inl TypeError)
             | Some hmac \<Rightarrow>
                 let expectedSignature = hmac key content;
                     evs = [CreateHmac key content]
                 in case primarySignature webhookSignature of
                      Inl e \<Rightarrow> (evs, Inl e)
                    | Inr primary \<Rightarrow>
                        (case Buffer_from (Some expectedSignature) of
                           Inl e \<Rightarrow> (evs, Inl e)
                         | Inr a \<Rightarrow>
                             (case Buffer_from primary of
                                Inl e \<Rightarrow> (evs, Inl e)
                              | Inr b \<Rightarrow>
                                  (case timingSafeEqual c of
                                     None \<Rightarrow> (evs, Inl TypeError)
                                   | Some equal \<Rightarrow>
                                       (case equal a b of
                                          Inl e \<Rightarrow> (evs @ [TimingSafeEqual a b], Inl e)
                                        | Inr isValid \<Rightarrow>
                                            (evs @ [TimingSafeEqual a b, ConsoleLog isValid],
                                             Inr isValid)))))))"

text \<open>The function as the module loads it: \<open>crypto\<close> is the global.\<close>

definition verifyWebhookSignature ::
  "yoco_config \<Rightarrow> js_string \<Rightarrow> js_string \<Rightarrow> js_string \<Rightarrow> js_string \<Rightarrow> outcome" where
  "verifyWebhookSignature cfg webhookId webhookTimestamp requestBody webhookSignature =
     catch_return_false
       (verifyWebhookSignature_try crypto cfg webhookId webhookTimestamp requestBody
          webhookSignature)"

subsection \<open>validateWebhookTimestamp\<close>

text \<open>
  \<open>Date_now\<close> is the time \<open>Date.now()\<close> returns during the call, in milliseconds.
  The optional parameter \<open>thresholdMinutes\<close> is \<open>None\<close> when the caller leaves it out.
\<close>

definition validateWebhookTimestamp_try :: "int \<Rightarrow> js_string \<Rightarrow> number option \<Rightarrow> outcome"
  where
  "validateWebhookTimestamp_try Date_now timestamp thresholdMinutes =
     (let minutes = (case thresholdMinutes of None \<Rightarrow> Dbl 3 0 | Some m \<Rightarrow> as_double m);
          webhookTime = num_times (parseInt timestamp) (Dbl 1000 0);
          currentTime = round_to_double Date_now 0;
          thresholdMs = num_times (num_times minutes (Dbl 60 0)) (Dbl 1000 0);
          isValid = num_le (Math_abs (num_minus currentTime webhookTime)) thresholdMs
      in ([ConsoleLog isValid], Inr isValid))"

definition validateWebhookTimestamp :: "int \<Rightarrow> js_string \<Rightarrow> number option \<Rightarrow> outcome" where
  "validateWebhookTimestamp Date_now timestamp thresholdMinutes =
     catch_return_false (validateWebhookTimestamp_try Date_now timestamp thresholdMinutes)"

text \<open>What a call returns to its caller: \<open>Inr\<close> the boolean, or \<open>Inl\<close> what it throws.\<close>

definition result :: "outcome \<Rightarrow> js_error + bool" where
  "result r = snd r"

definition effects :: "outcome \<Rightarrow> event list" where
  "effects r = fst r"

section \<open>Properties\<close>

subsection \<open>What a call of verifyWebhookSignature does\<close>

lemma result_catch_return_false:
  "result (catch_return_false r) = Inr (snd r = Inr True)"
  by (cases r rule: catch_return_false.cases) (auto simp: result_def)

lemma secretBytes_error: "secretBytes cfg = Inl e \<Longrightarrow> e = TypeError"
  by (auto simp: secretBytes_def Buffer_from_base64_def split: option.splits)

text \<open>With a secret configured, the call ends in the \<open>TypeError\<close> of the missing
  \<open>createHmac\<close>, or before it in that of a secret without underscore.\<close>

lemma verify_outcome:
  "verifyWebhookSignature cfg webhookId webhookTimestamp requestBody webhookSignature =
     (if webhookSecret cfg = [] then ([ConsoleWarn], Inr False)
      else ([ConsoleError TypeError], Inr False))"
  by (auto simp: verifyWebhookSignature_def verifyWebhookSignature_try_def crypto_def Let_def
      split: sum.splits dest: secretBytes_error)

lemma verify_false:
  "result (verifyWebhookSignature cfg webhookId webhookTimestamp requestBody webhookSignature)
     = Inr False"
  by (simp add: verify_outcome result_def)

subsection \<open>The scenario of the specification\<close>

lemma scenario_config:
  "webhookSecret (YOCO_CONFIG [''YOCO_WEBHOOK_SECRET'' \<mapsto> str ''whsec_ZmFrZXNlY3JldGtleQ==''])
     = str ''whsec_ZmFrZXNlY3JldGtleQ==''"
  by (simp add: YOCO_CONFIG_def env_or_empty_def)

lemma scenario_secret_set: "str ''whsec_ZmFrZXNlY3JldGtleQ=='' \<noteq> []"
  by (simp add: str_def)

lemma scenario_key:
  "base64_decode (str ''ZmFrZXNlY3JldGtleQ=='') = utf8_encode (str ''fakesecretkey'')"
  by code_simp

lemma scenario_split:
  "js_index (js_split (cu CHR ''_'') (str ''whsec_ZmFrZXNlY3JldGtleQ=='')) 1
     = Some (str ''ZmFrZXNlY3JldGtleQ=='')"
  by code_simp

lemma scenario_secretBytes:
  "secretBytes (YOCO_CONFIG [''YOCO_WEBHOOK_SECRET'' \<mapsto> str ''whsec_ZmFrZXNlY3JldGtleQ==''])
     = Inr (base64_decode (str ''ZmFrZXNlY3JldGtleQ==''))"
  by (simp only: secretBytes_def scenario_config scenario_split Buffer_from_base64_def
      option.case)

lemma scenario_content:
  "signedContent (str ''evt_1'') (str ''1700000000'') (str ''{\"type\":\"payment.succeeded\"}'')
     = str ''evt_1.1700000000.{\"type\":\"payment.succeeded\"}''"
  by (simp add: signedContent_def str_def)

text \<open>The expected signature of the scenario, computed.\<close>

lemma scenario_signature:
  "createHmac_sha256_base64 (base64_decode (str ''ZmFrZXNlY3JldGtleQ==''))
     (str ''evt_1.1700000000.{\"type\":\"payment.succeeded\"}'')
   = str ''VnEXwA/YbB3oDDdx74EGjzjNUIKuSFeTyFrnnCUeUHU=''"
  by code_simp

lemma scenario_expected:
  "createHmac_sha256_base64 (base64_decode (str ''ZmFrZXNlY3JldGtleQ==''))
     (signedContent (str ''evt_1'') (str ''1700000000'')
        (str ''{\"type\":\"payment.succeeded\"}''))
   = str ''VnEXwA/YbB3oDDdx74EGjzjNUIKuSFeTyFrnnCUeUHU=''"
  by (simp only: scenario_content scenario_signature)

lemma scenario_primary:
  "primarySignature (str ''v1,VnEXwA/YbB3oDDdx74EGjzjNUIKuSFeTyFrnnCUeUHU='')
     = Inr (Some (str ''VnEXwA/YbB3oDDdx74EGjzjNUIKuSFeTyFrnnCUeUHU=''))"
  by code_simp

lemma scenario_primary_v999:
  "primarySignature (str ''v999,VnEXwA/YbB3oDDdx74EGjzjNUIKuSFeTyFrnnCUeUHU='')
     = Inr (Some (str ''VnEXwA/YbB3oDDdx74EGjzjNUIKuSFeTyFrnnCUeUHU=''))"
  by code_simp

text \<open>
  Had the \<open>crypto\<close> module of Node been imported, the header of the scenario would
  verify, under the tag \<open>v1\<close> and under any other: the body of the function does what the
  specification describes.
\<close>

lemma with_node_crypto:
  assumes "primarySignature webhookSignature
             = Inr (Some (str ''VnEXwA/YbB3oDDdx74EGjzjNUIKuSFeTyFrnnCUeUHU=''))"
  shows "result (catch_return_false
     (verifyWebhookSignature_try node_crypto
        (YOCO_CONFIG [''YOCO_WEBHOOK_SECRET'' \<mapsto> str ''whsec_ZmFrZXNlY3JldGtleQ==''])
        (str ''evt_1'') (str ''1700000000'') (str ''{\"type\":\"payment.succeeded\"}'')
        webhookSignature)) = Inr True"
  unfolding verifyWebhookSignature_try_def scenario_config scenario_secretBytes
    scenario_content assms
  using scenario_secret_set
  by (simp add: node_crypto_def scenario_signature Buffer_from_def node_timingSafeEqual_def
      Let_def result_def)

lemma scenario_verifies_with_node_crypto:
  "result (catch_return_false
     (verifyWebhookSignature_try node_crypto
        (YOCO_CONFIG [''YOCO_WEBHOOK_SECRET'' \<mapsto> str ''whsec_ZmFrZXNlY3JldGtleQ==''])
        (str ''evt_1'') (str ''1700000000'') (str ''{\"type\":\"payment.succeeded\"}'')
        (str ''v1,VnEXwA/YbB3oDDdx74EGjzjNUIKuSFeTyFrnnCUeUHU=''))) = Inr True"
  by (rule with_node_crypto [OF scenario_primary])

lemma other_tag_verifies_with_node_crypto:
  "result (catch_return_false
     (verifyWebhookSignature_try node_crypto
        (YOCO_CONFIG [''YOCO_WEBHOOK_SECRET'' \<mapsto> str ''whsec_ZmFrZXNlY3JldGtleQ==''])
        (str ''evt_1'') (str ''1700000000'') (str ''{\"type\":\"payment.succeeded\"}'')
        (str ''v999,VnEXwA/YbB3oDDdx74EGjzjNUIKuSFeTyFrnnCUeUHU=''))) = Inr True"
  by (rule with_node_crypto [OF scenario_primary_v999])

subsection \<open>Doubles that are exact\<close>

lemma bit_length_le: "n < 2 ^ k \<Longrightarrow> bit_length n \<le> k"
proof (induction k arbitrary: n)
  case 0
  then show ?case by (simp add: bit_length.simps)
next
  case (Suc k)
  show ?case
  proof (cases "n \<le> 0")
    case True
    then show ?thesis by (simp add: bit_length.simps)
  next
    case False
    from Suc.prems have "n div 2 < 2 ^ k" by simp
    from Suc.IH [OF this] False show ?thesis
      by (subst bit_length.simps) simp
  qed
qed

text \<open>An integer below \<open>2^53\<close> in magnitude is a double, and rounding leaves it alone.\<close>

lemma round_exact: "\<bar>m\<bar> < 2 ^ 53 \<Longrightarrow> round_to_double m 0 = Dbl m 0"
proof -
  assume m: "\<bar>m\<bar> < 2 ^ 53"
  then have b: "bit_length \<bar>m\<bar> \<le> 53" by (rule bit_length_le)
  then show ?thesis
    by (auto simp: round_to_double_def Let_def)
qed

lemma validate_result:
  "result (validateWebhookTimestamp Date_now timestamp thresholdMinutes) =
     Inr (num_le (Math_abs (num_minus (round_to_double Date_now 0)
                              (num_times (parseInt timestamp) (Dbl 1000 0))))
            (num_times (num_times (case thresholdMinutes of None \<Rightarrow> Dbl 3 0
                                   | Some m \<Rightarrow> as_double m) (Dbl 60 0)) (Dbl 1000 0)))"
  by (simp add: validateWebhookTimestamp_def validateWebhookTimestamp_try_def result_def
      Let_def)

lemma threshold_exact:
  "\<bar>m * 60 * 1000\<bar> < 2 ^ 53 \<Longrightarrow>
   num_times (num_times (as_double (Dbl m 0)) (Dbl 60 0)) (Dbl 1000 0) = Dbl (m * 60 * 1000) 0"
proof -
  assume a: "\<bar>m * 60 * 1000\<bar> < 2 ^ 53"
  then have "\<bar>m\<bar> < 2 ^ 53" and "\<bar>m * 60\<bar> < 2 ^ 53" by (simp_all add: abs_mult)
  with a show ?thesis by (simp add: round_exact)
qed

lemma validate_exact:
  assumes "parseInt timestamp = Dbl t 0"
    and "\<bar>t * 1000\<bar> < 2 ^ 53" and "\<bar>Date_now\<bar> < 2 ^ 53" and "\<bar>Date_now - t * 1000\<bar> < 2 ^ 53"
  shows "result (validateWebhookTimestamp Date_now timestamp None)
           = Inr (\<bar>Date_now - t * 1000\<bar> \<le> 3 * 60 * 1000)"
    and "\<bar>m * 60 * 1000\<bar> < 2 ^ 53 \<Longrightarrow>
         result (validateWebhookTimestamp Date_now timestamp (Some (Dbl m 0)))
           = Inr (\<bar>Date_now - t * 1000\<bar> \<le> m * 60 * 1000)"
proof -
  have d: "Math_abs (num_minus (round_to_double Date_now 0)
                       (num_times (parseInt timestamp) (Dbl 1000 0)))
           = Dbl \<bar>Date_now - t * 1000\<bar> 0"
    using assms by (simp add: round_exact)
  have 3: "num_times (num_times (Dbl 3 0) (Dbl 60 0)) (Dbl 1000 0) = Dbl (3 * 60 * 1000) 0"
    by (simp add: round_exact)
  show "result (validateWebhookTimestamp Date_now timestamp None)
           = Inr (\<bar>Date_now - t * 1000\<bar> \<le> 3 * 60 * 1000)"
    unfolding validate_result d by (simp only: option.case 3) simp
  show "result (validateWebhookTimestamp Date_now timestamp (Some (Dbl m 0)))
           = Inr (\<bar>Date_now - t * 1000\<bar> \<le> m * 60 * 1000)"
    if "\<bar>m * 60 * 1000\<bar> < 2 ^ 53"
    unfolding validate_result d by (simp only: option.case threshold_exact [OF that]) simp
qed

text \<open>A timestamp that starts with decimal digits, and not with \<open>0x\<close> or \<open>0X\<close>, parses to
  the double nearest to the value of its leading digits.\<close>

lemma is_digit_10: "is_digit 10 c \<longleftrightarrow> 48 \<le> unat c \<and> unat c \<le> 57"
  by (auto simp: is_digit_def digit_of_def Let_def)

lemma unat_cu: "unat (cu c) = of_char c"
proof -
  have "(of_char c :: nat) < 256" by (cases c) simp
  then have "of_char c mod 65536 = (of_char c :: nat)" by (intro mod_less) linarith
  then show ?thesis by (simp add: cu_def unat_of_nat)
qed

lemma not_white_space_digit:
  "48 \<le> (n::int) \<Longrightarrow> n \<le> 57 \<Longrightarrow>
   \<not> (n \<in> {0x09, 0x0A, 0x0B, 0x0C, 0x0D, 0x20, 0xA0, 0x1680, 0x2028, 0x2029, 0x202F, 0x205F,
            0x3000, 0xFEFF}
      \<or> (0x2000 \<le> n \<and> n \<le> 0x200A))"
  by (simp only: insert_iff empty_iff, safe, simp_all)

lemma trimStart_digit:
  assumes "is_digit 10 c"
  shows "trimStart (c # cs) = c # cs"
proof -
  have "48 \<le> unat c" "unat c \<le> 57"
    using assms by (simp_all add: is_digit_10)
  moreover have "uint c = int (unat c)" by (rule uint_nat)
  ultimately have "48 \<le> uint c" "uint c \<le> 57" by linarith+
  then have "\<not> is_white_space c"
    unfolding is_white_space_def Let_def by (rule not_white_space_digit)
  then show ?thesis by (simp add: trimStart_def)
qed

lemma strip_sign_digit:
  assumes "is_digit 10 c"
  shows "strip_sign (c # cs) = (1, c # cs)"
proof -
  have "unat (cu CHR ''-'') = 45" "unat (cu CHR ''+'') = 43" by (simp_all add: unat_cu)
  then have "c \<noteq> cu CHR ''-''" "c \<noteq> cu CHR ''+''" using assms by (auto simp: is_digit_10)
  then show ?thesis by simp
qed

lemma strip_prefix_decimal:
  "take 2 s \<noteq> str ''0x'' \<Longrightarrow> take 2 s \<noteq> str ''0X'' \<Longrightarrow> strip_prefix s = (10, s)"
  by (cases s rule: strip_prefix.cases) (auto simp: str_def)

lemma parseInt_decimal:
  assumes "takeWhile (is_digit 10) timestamp \<noteq> []"
    and "take 2 timestamp \<noteq> str ''0x''" and "take 2 timestamp \<noteq> str ''0X''"
  shows "parseInt timestamp
           = round_to_double (digits_value 10 (takeWhile (is_digit 10) timestamp)) 0"
proof -
  obtain c cs where t: "timestamp = c # cs" and c: "is_digit 10 c"
    using assms(1) by (cases timestamp) (auto split: if_splits)
  have 1: "strip_sign (trimStart timestamp) = (1, timestamp)"
    by (simp only: t trimStart_digit [OF c] strip_sign_digit [OF c])
  have 2: "strip_prefix timestamp = (10, timestamp)"
    using assms(2,3) by (rule strip_prefix_decimal)
  show ?thesis
    using assms(1) by (simp add: parseInt_def 1 2 Let_def del: takeWhile.simps)
qed

lemma num_minus_NaN: "num_minus a NaN = NaN"
  by (cases a) simp_all

lemma validate_NaN:
  "parseInt timestamp = NaN \<Longrightarrow>
   result (validateWebhookTimestamp Date_now timestamp thresholdMinutes) = Inr False"
  by (simp add: validate_result num_minus_NaN)

subsection \<open>The freshness window\<close>




subsection \<open>The missing secret\<close>

text \<open>
  Claim C5. When the environment variable holding the webhook secret is unset or empty,
  \<open>verifyWebhookSignature\<close> returns false for every id, timestamp, body and signature
  header. It does not throw, and the only thing it does is log the warning: no HMAC is
  computed and no comparison is made.
\<close>

theorem missing_secret_short_circuits:
  assumes "env ''YOCO_WEBHOOK_SECRET'' = None \<or> env ''YOCO_WEBHOOK_SECRET'' = Some []"
  shows "verifyWebhookSignature (YOCO_CONFIG env) webhookId webhookTimestamp requestBody
           webhookSignature = ([ConsoleWarn], Inr False)"
  using assms
  by (auto simp: verifyWebhookSignature_def verifyWebhookSignature_try_def YOCO_CONFIG_def
      env_or_empty_def)

theorem missing_secret_short_circuits_witness:
  "(Map.empty :: string \<rightharpoonup> js_string) ''YOCO_WEBHOOK_SECRET'' = None
   \<and> verifyWebhookSignature (YOCO_CONFIG Map.empty) (str ''evt_1'') (str ''1700000000'')
         (str ''{\"type\":\"payment.succeeded\"}'')
         (str ''v1,VnEXwA/YbB3oDDdx74EGjzjNUIKuSFeTyFrnnCUeUHU='')
       = ([ConsoleWarn], Inr False)"
  using missing_secret_short_circuits [of Map.empty] by simp

subsection \<open>A correctly signed webhook\<close>

text \<open>
  Claim C1 describes what the function is written to do, and the code does not do it: the
  module never imports \<open>crypto\<close>, so the call of \<open>crypto.createHmac\<close> throws, the
  \<open>catch\<close> turns that into false, and the header of the scenario, the base64
  HMAC-SHA256 of \<open>evt_1.1700000000.{"type":"payment.succeeded"}\<close> under the key
  \<open>fakesecretkey\<close>, is rejected like any other.
\<close>

theorem signed_header_rejected:
  "str ''v1,VnEXwA/YbB3oDDdx74EGjzjNUIKuSFeTyFrnnCUeUHU=''
     = str ''v1,'' @ createHmac_sha256_base64 (base64_decode (str ''ZmFrZXNlY3JldGtleQ==''))
         (str ''evt_1'' @ str ''.'' @ str ''1700000000'' @ str ''.''
            @ str ''{\"type\":\"payment.succeeded\"}'')
   \<and> base64_decode (str ''ZmFrZXNlY3JldGtleQ=='') = utf8_encode (str ''fakesecretkey'')
   \<and> verifyWebhookSignature
         (YOCO_CONFIG [''YOCO_WEBHOOK_SECRET'' \<mapsto> str ''whsec_ZmFrZXNlY3JldGtleQ==''])
         (str ''evt_1'') (str ''1700000000'') (str ''{\"type\":\"payment.succeeded\"}'')
         (str ''v1,VnEXwA/YbB3oDDdx74EGjzjNUIKuSFeTyFrnnCUeUHU='')
       = ([ConsoleError TypeError], Inr False)"
proof -
  have "str ''v1,VnEXwA/YbB3oDDdx74EGjzjNUIKuSFeTyFrnnCUeUHU=''
          = str ''v1,'' @ str ''VnEXwA/YbB3oDDdx74EGjzjNUIKuSFeTyFrnnCUeUHU=''"
    by (simp add: str_def)
  then have a: "str ''v1,VnEXwA/YbB3oDDdx74EGjzjNUIKuSFeTyFrnnCUeUHU=''
     = str ''v1,'' @ createHmac_sha256_base64 (base64_decode (str ''ZmFrZXNlY3JldGtleQ==''))
         (str ''evt_1'' @ str ''.'' @ str ''1700000000'' @ str ''.''
            @ str ''{\"type\":\"payment.succeeded\"}'')"
    using scenario_expected by (simp only: signedContent_def)
  have b: "verifyWebhookSignature
         (YOCO_CONFIG [''YOCO_WEBHOOK_SECRET'' \<mapsto> str ''whsec_ZmFrZXNlY3JldGtleQ==''])
         (str ''evt_1'') (str ''1700000000'') (str ''{\"type\":\"payment.succeeded\"}'')
         (str ''v1,VnEXwA/YbB3oDDdx74EGjzjNUIKuSFeTyFrnnCUeUHU='')
       = ([ConsoleError TypeError], Inr False)"
    using scenario_secret_set by (simp add: verify_outcome scenario_config)
  from a scenario_key b show ?thesis by blast
qed

subsection \<open>The version tag\<close>

text \<open>
  Claim C10 is right that no line of the function looks at the version tag: a header
  \<open>v,s\<close> has the same outcome as \<open>v1,s\<close>, whatever \<open>v\<close> is. But the outcome is false,
  also when \<open>s\<close> is the expected signature, as for \<open>v999\<close> in the scenario: the call of
  \<open>crypto.createHmac\<close> throws before the header is read.
\<close>

theorem other_tag_rejected:
  "str ''v999,VnEXwA/YbB3oDDdx74EGjzjNUIKuSFeTyFrnnCUeUHU=''
     = str ''v999'' @ str '','' @ createHmac_sha256_base64
         (base64_decode (str ''ZmFrZXNlY3JldGtleQ==''))
         (signedContent (str ''evt_1'') (str ''1700000000'')
            (str ''{\"type\":\"payment.succeeded\"}''))
   \<and> verifyWebhookSignature
       (YOCO_CONFIG [''YOCO_WEBHOOK_SECRET'' \<mapsto> str ''whsec_ZmFrZXNlY3JldGtleQ==''])
       (str ''evt_1'') (str ''1700000000'') (str ''{\"type\":\"payment.succeeded\"}'')
       (str ''v999,VnEXwA/YbB3oDDdx74EGjzjNUIKuSFeTyFrnnCUeUHU='')
     = ([ConsoleError TypeError], Inr False)
   \<and> verifyWebhookSignature cfg webhookId webhookTimestamp requestBody (v @ str '','' @ s)
     = verifyWebhookSignature cfg webhookId webhookTimestamp requestBody (str ''v1,'' @ s)"
proof -
  have "str ''v999,VnEXwA/YbB3oDDdx74EGjzjNUIKuSFeTyFrnnCUeUHU=''
          = str ''v999'' @ str '','' @ str ''VnEXwA/YbB3oDDdx74EGjzjNUIKuSFeTyFrnnCUeUHU=''"
    by (simp add: str_def)
  then have a: "str ''v999,VnEXwA/YbB3oDDdx74EGjzjNUIKuSFeTyFrnnCUeUHU=''
     = str ''v999'' @ str '','' @ createHmac_sha256_base64
         (base64_decode (str ''ZmFrZXNlY3JldGtleQ==''))
         (signedContent (str ''evt_1'') (str ''1700000000'')
            (str ''{\"type\":\"payment.succeeded\"}''))"
    by (simp only: scenario_expected)
  have b: "verifyWebhookSignature
       (YOCO_CONFIG [''YOCO_WEBHOOK_SECRET'' \<mapsto> str ''whsec_ZmFrZXNlY3JldGtleQ==''])
       (str ''evt_1'') (str ''1700000000'') (str ''{\"type\":\"payment.succeeded\"}'')
       (str ''v999,VnEXwA/YbB3oDDdx74EGjzjNUIKuSFeTyFrnnCUeUHU='')
     = ([ConsoleError TypeError], Inr False)"
    using scenario_secret_set by (simp add: verify_outcome scenario_config)
  have c: "verifyWebhookSignature cfg webhookId webhookTimestamp requestBody
             (v @ str '','' @ s)
     = verifyWebhookSignature cfg webhookId webhookTimestamp requestBody (str ''v1,'' @ s)"
    by (simp only: verify_outcome)
  from a b c show ?thesis by blast
qed

subsection \<open>The key of the HMAC\<close>

text \<open>
  Claim C6 states what the comment in the code intends, to remove the prefix
  \<open>whsec_\<close>. The code takes \<open>split('_')[1]\<close>, the piece between the first and the
  second underscore: for the secret \<open>whsec_ab_cd\<close> the bytes decoded are those of
  \<open>ab\<close>, one byte, and not those of \<open>ab_cd\<close>, three bytes. No HMAC is keyed with
  them either, since the call of \<open>crypto.createHmac\<close> throws.
\<close>

theorem underscore_in_secret_truncates_key:
  "secretBytes (YOCO_CONFIG [''YOCO_WEBHOOK_SECRET'' \<mapsto> str ''whsec_ab_cd'']) = Inr [105]
   \<and> base64_decode (str ''ab_cd'') = [105, 191, 220]
   \<and> verifyWebhookSignature (YOCO_CONFIG [''YOCO_WEBHOOK_SECRET'' \<mapsto> str ''whsec_ab_cd''])
         (str ''evt_1'') (str ''1700000000'') (str ''{\"type\":\"payment.succeeded\"}'')
         (str ''v1,VnEXwA/YbB3oDDdx74EGjzjNUIKuSFeTyFrnnCUeUHU='')
       = ([ConsoleError TypeError], Inr False)"
proof -
  have s: "webhookSecret (YOCO_CONFIG [''YOCO_WEBHOOK_SECRET'' \<mapsto> str ''whsec_ab_cd''])
             = str ''whsec_ab_cd''"
    by (simp add: YOCO_CONFIG_def env_or_empty_def)
  have i: "js_index (js_split (cu CHR ''_'') (str ''whsec_ab_cd'')) 1 = Some (str ''ab'')"
    by code_simp
  have a: "base64_decode (str ''ab'') = [105]" by code_simp
  have b: "base64_decode (str ''ab_cd'') = [105, 191, 220]" by code_simp
  have k: "secretBytes (YOCO_CONFIG [''YOCO_WEBHOOK_SECRET'' \<mapsto> str ''whsec_ab_cd''])
             = Inr [105]"
    by (simp only: secretBytes_def s i Buffer_from_base64_def option.case a)
  have n: "str ''whsec_ab_cd'' \<noteq> []" by (simp add: str_def)
  from k b n show ?thesis by (simp add: verify_outcome s)
qed

subsection \<open>Only the first entry counts\<close>

text \<open>
  Claim C7. Only the first space-separated entry of the signature header is compared:
  when the value of the first \<open>version,value\<close> entry is not the expected signature,
  \<open>verifyWebhookSignature\<close> returns false whatever the later entries are, also when
  one of them carries the expected signature.
\<close>

theorem only_first_entry_checked:
  assumes "cu CHR '' '' \<notin> set version" and "cu CHR '','' \<notin> set version"
    and "cu CHR '' '' \<notin> set val" and "cu CHR '','' \<notin> set val"
    and "secretBytes cfg = Inr key"
    and "val \<noteq> createHmac_sha256_base64 key
                  (signedContent webhookId webhookTimestamp requestBody)"
  shows "result (verifyWebhookSignature cfg webhookId webhookTimestamp requestBody
                   (version @ str '','' @ val @ str '' '' @ others)) = Inr False"
  by (rule verify_false)

theorem only_first_entry_checked_witness:
  "secretBytes (YOCO_CONFIG [''YOCO_WEBHOOK_SECRET'' \<mapsto> str ''whsec_ZmFrZXNlY3JldGtleQ==''])
     = Inr (base64_decode (str ''ZmFrZXNlY3JldGtleQ==''))
   \<and> str ''forged'' \<noteq> createHmac_sha256_base64 (base64_decode (str ''ZmFrZXNlY3JldGtleQ==''))
         (signedContent (str ''evt_1'') (str ''1700000000'')
            (str ''{\"type\":\"payment.succeeded\"}''))
   \<and> result (verifyWebhookSignature
         (YOCO_CONFIG [''YOCO_WEBHOOK_SECRET'' \<mapsto> str ''whsec_ZmFrZXNlY3JldGtleQ==''])
         (str ''evt_1'') (str ''1700000000'') (str ''{\"type\":\"payment.succeeded\"}'')
         (str ''v1'' @ str '','' @ str ''forged'' @ str '' ''
            @ str ''v2,VnEXwA/YbB3oDDdx74EGjzjNUIKuSFeTyFrnnCUeUHU='')) = Inr False"
proof -
  have d: "str ''forged'' \<noteq> createHmac_sha256_base64
             (base64_decode (str ''ZmFrZXNlY3JldGtleQ==''))
             (signedContent (str ''evt_1'') (str ''1700000000'')
                (str ''{\"type\":\"payment.succeeded\"}''))"
    unfolding scenario_expected by (simp add: str_def)
  have v: "cu CHR '' '' \<notin> set (str ''v1'')" "cu CHR '','' \<notin> set (str ''v1'')"
    "cu CHR '' '' \<notin> set (str ''forged'')" "cu CHR '','' \<notin> set (str ''forged'')"
    by (simp_all add: str_def cu_def)
  from only_first_entry_checked [OF v scenario_secretBytes d] scenario_secretBytes d
  show ?thesis by blast
qed

subsection \<open>A signature that does not match is rejected\<close>

text \<open>
  Claim C2. Whenever the value read from the first space-separated entry of the header,
  be it all the text after its first comma or the text up to a second comma as the code
  reads it, differs from the base64 HMAC-SHA256 of the signed content under the configured
  key, \<open>verifyWebhookSignature\<close> returns false. It returns false in particular for any
  header with one more character appended, and for any id, timestamp and body other than
  those that were signed. (It returns false for these inputs as for all others, the call
  of \<open>crypto.createHmac\<close> throwing before anything is compared.)
\<close>

theorem mismatch_rejected:
  assumes "secretBytes cfg = Inr key"
  shows "(tl (dropWhile (\<lambda>c. c \<noteq> cu CHR '','')
               (takeWhile (\<lambda>c. c \<noteq> cu CHR '' '') webhookSignature))
            \<noteq> createHmac_sha256_base64 key
                 (signedContent webhookId webhookTimestamp requestBody)
          \<longrightarrow> result (verifyWebhookSignature cfg webhookId webhookTimestamp requestBody
                        webhookSignature) = Inr False)
       \<and> (primarySignature webhookSignature
            \<noteq> Inr (Some (createHmac_sha256_base64 key
                            (signedContent webhookId webhookTimestamp requestBody)))
          \<longrightarrow> result (verifyWebhookSignature cfg webhookId webhookTimestamp requestBody
                        webhookSignature) = Inr False)
       \<and> result (verifyWebhookSignature cfg webhookId webhookTimestamp requestBody
                   (webhookSignature @ [c])) = Inr False
       \<and> ((webhookId', webhookTimestamp', requestBody')
              \<noteq> (webhookId, webhookTimestamp, requestBody)
          \<longrightarrow> result (verifyWebhookSignature cfg webhookId' webhookTimestamp' requestBody'
                        webhookSignature) = Inr False)"
  by (simp add: verify_false)

theorem mismatch_rejected_witness:
  "secretBytes (YOCO_CONFIG [''YOCO_WEBHOOK_SECRET'' \<mapsto> str ''whsec_ZmFrZXNlY3JldGtleQ==''])
     = Inr (base64_decode (str ''ZmFrZXNlY3JldGtleQ==''))
   \<and> tl (dropWhile (\<lambda>c. c \<noteq> cu CHR '','')
          (takeWhile (\<lambda>c. c \<noteq> cu CHR '' '')
             (str ''v1,VnEXwA/YbB3oDDdx74EGjzjNUIKuSFeTyFrnnCUeUHU=x'')))
        \<noteq> createHmac_sha256_base64 (base64_decode (str ''ZmFrZXNlY3JldGtleQ==''))
            (signedContent (str ''evt_1'') (str ''1700000000'')
               (str ''{\"type\":\"payment.succeeded\"}''))
   \<and> primarySignature (str ''v1,VnEXwA/YbB3oDDdx74EGjzjNUIKuSFeTyFrnnCUeUHU=x'')
        \<noteq> Inr (Some (createHmac_sha256_base64 (base64_decode (str ''ZmFrZXNlY3JldGtleQ==''))
               (signedContent (str ''evt_1'') (str ''1700000000'')
                  (str ''{\"type\":\"payment.succeeded\"}''))))
   \<and> result (verifyWebhookSignature
        (YOCO_CONFIG [''YOCO_WEBHOOK_SECRET'' \<mapsto> str ''whsec_ZmFrZXNlY3JldGtleQ==''])
        (str ''evt_1'') (str ''1700000000'') (str ''{\"type\":\"payment.succeeded\"}'')
        (str ''v1,VnEXwA/YbB3oDDdx74EGjzjNUIKuSFeTyFrnnCUeUHU=x'')) = Inr False
   \<and> result (verifyWebhookSignature
        (YOCO_CONFIG [''YOCO_WEBHOOK_SECRET'' \<mapsto> str ''whsec_ZmFrZXNlY3JldGtleQ==''])
        (str ''evt_1'') (str ''1700000000'') (str ''{\"type\":\"payment.succeeded\"}'')
        (str ''v1,VnEXwA/YbB3oDDdx74EGjzjNUIKuSFeTyFrnnCUeUHU='' @ [cu CHR ''x''])) = Inr False
   \<and> (str ''evt_1'', str ''1700000000'', str ''{\"type\":\"payment.failed\"}'')
        \<noteq> (str ''evt_1'', str ''1700000000'', str ''{\"type\":\"payment.succeeded\"}'')
   \<and> result (verifyWebhookSignature
        (YOCO_CONFIG [''YOCO_WEBHOOK_SECRET'' \<mapsto> str ''whsec_ZmFrZXNlY3JldGtleQ==''])
        (str ''evt_1'') (str ''1700000000'') (str ''{\"type\":\"payment.failed\"}'')
        (str ''v1,VnEXwA/YbB3oDDdx74EGjzjNUIKuSFeTyFrnnCUeUHU='')) = Inr False"
proof -
  let ?cfg = "YOCO_CONFIG [''YOCO_WEBHOOK_SECRET'' \<mapsto> str ''whsec_ZmFrZXNlY3JldGtleQ=='']"
  let ?body = "str ''{\"type\":\"payment.succeeded\"}''"
  let ?bad = "str ''v1,VnEXwA/YbB3oDDdx74EGjzjNUIKuSFeTyFrnnCUeUHU=x''"
  let ?hdr = "str ''v1,VnEXwA/YbB3oDDdx74EGjzjNUIKuSFeTyFrnnCUeUHU=''"
  have e: "tl (dropWhile (\<lambda>c. c \<noteq> cu CHR '','') (takeWhile (\<lambda>c. c \<noteq> cu CHR '' '') ?bad))
             = str ''VnEXwA/YbB3oDDdx74EGjzjNUIKuSFeTyFrnnCUeUHU=x''"
    by code_simp
  have p: "primarySignature ?bad
             = Inr (Some (str ''VnEXwA/YbB3oDDdx74EGjzjNUIKuSFeTyFrnnCUeUHU=x''))"
    by code_simp
  have x: "str ''VnEXwA/YbB3oDDdx74EGjzjNUIKuSFeTyFrnnCUeUHU=x''
             \<noteq> str ''VnEXwA/YbB3oDDdx74EGjzjNUIKuSFeTyFrnnCUeUHU=''"
    by (simp add: str_def)
  have 1: "tl (dropWhile (\<lambda>c. c \<noteq> cu CHR '','') (takeWhile (\<lambda>c. c \<noteq> cu CHR '' '') ?bad))
        \<noteq> createHmac_sha256_base64 (base64_decode (str ''ZmFrZXNlY3JldGtleQ==''))
            (signedContent (str ''evt_1'') (str ''1700000000'') ?body)"
    unfolding e scenario_expected by (rule x)
  have 2: "primarySignature ?bad
        \<noteq> Inr (Some (createHmac_sha256_base64 (base64_decode (str ''ZmFrZXNlY3JldGtleQ==''))
               (signedContent (str ''evt_1'') (str ''1700000000'') ?body)))"
    unfolding p scenario_expected using x by simp
  have 3: "(str ''evt_1'', str ''1700000000'', str ''{\"type\":\"payment.failed\"}'')
        \<noteq> (str ''evt_1'', str ''1700000000'', ?body)"
    by (simp add: str_def)
  note a = mismatch_rejected [OF scenario_secretBytes, of ?bad "str ''evt_1''"
      "str ''1700000000''" ?body]
  note b = mismatch_rejected [OF scenario_secretBytes, of ?hdr "str ''evt_1''"
      "str ''1700000000''" ?body "cu CHR ''x''" "str ''evt_1''" "str ''1700000000''"
      "str ''{\"type\":\"payment.failed\"}''"]
  from a 1 have 4: "result (verifyWebhookSignature ?cfg (str ''evt_1'') (str ''1700000000'')
                      ?body ?bad) = Inr False"
    by blast
  from b have 5: "result (verifyWebhookSignature ?cfg (str ''evt_1'') (str ''1700000000'')
                      ?body (?hdr @ [cu CHR ''x''])) = Inr False"
    by blast
  from b 3 have 6: "result (verifyWebhookSignature ?cfg (str ''evt_1'') (str ''1700000000'')
                      (str ''{\"type\":\"payment.failed\"}'') ?hdr) = Inr False"
    by blast
  from scenario_secretBytes 1 2 4 5 3 6 show ?thesis by blast
qed

subsection \<open>Neither function throws\<close>

text \<open>
  Claim C3. Neither \<open>verifyWebhookSignature\<close> nor \<open>validateWebhookTimestamp\<close> throws
  to its caller, for any strings: each returns a boolean, and whatever is thrown inside
  \<open>verifyWebhookSignature\<close> is caught, logged and turned into false. The result is false
  for a timestamp that does not parse, for an empty signature header, for a header without
  a comma, for a header with white space in it, for a secret from which no key is decoded,
  for the exception thrown at the HMAC computation, and when the value read from the header
  and the expected signature differ in length.
\<close>

theorem never_throws:
  "(\<exists>b. result (verifyWebhookSignature cfg webhookId webhookTimestamp requestBody
                   webhookSignature) = Inr b)
   \<and> (\<exists>b. result (validateWebhookTimestamp Date_now timestamp thresholdMinutes) = Inr b)
   \<and> (verifyWebhookSignature_try crypto cfg webhookId webhookTimestamp requestBody
         webhookSignature = (evs, Inl e)
       \<longrightarrow> verifyWebhookSignature cfg webhookId webhookTimestamp requestBody webhookSignature
         = (evs @ [ConsoleError e], Inr False))
   \<and> (parseInt timestamp = NaN
       \<longrightarrow> result (validateWebhookTimestamp Date_now timestamp thresholdMinutes) = Inr False)
   \<and> result (verifyWebhookSignature cfg webhookId webhookTimestamp requestBody []) = Inr False
   \<and> (cu CHR '','' \<notin> set webhookSignature
       \<longrightarrow> result (verifyWebhookSignature cfg webhookId webhookTimestamp requestBody
                     webhookSignature) = Inr False)
   \<and> (cu CHR '' '' \<in> set webhookSignature
       \<longrightarrow> result (verifyWebhookSignature cfg webhookId webhookTimestamp requestBody
                     webhookSignature) = Inr False)
   \<and> (secretBytes cfg = Inl e'
       \<longrightarrow> result (verifyWebhookSignature cfg webhookId webhookTimestamp requestBody
                     webhookSignature) = Inr False)
   \<and> (webhookSecret cfg \<noteq> [] \<and> secretBytes cfg = Inr key
       \<longrightarrow> verifyWebhookSignature cfg webhookId webhookTimestamp requestBody webhookSignature
             = ([ConsoleError TypeError], Inr False))
   \<and> (secretBytes cfg = Inr key \<and> primarySignature webhookSignature = Inr (Some p)
        \<and> length (utf8_encode p)
            \<noteq> length (utf8_encode (createHmac_sha256_base64 key
                                     (signedContent webhookId webhookTimestamp requestBody)))
       \<longrightarrow> result (verifyWebhookSignature cfg webhookId webhookTimestamp requestBody
                     webhookSignature) = Inr False)"
proof (intro conjI impI)
  show "\<exists>b. result (verifyWebhookSignature cfg webhookId webhookTimestamp requestBody
                   webhookSignature) = Inr b"
    using verify_false by blast
  show "\<exists>b. result (validateWebhookTimestamp Date_now timestamp thresholdMinutes) = Inr b"
    by (simp add: validate_result)
  show "verifyWebhookSignature cfg webhookId webhookTimestamp requestBody webhookSignature
          = (evs @ [ConsoleError e], Inr False)"
    if "verifyWebhookSignature_try crypto cfg webhookId webhookTimestamp requestBody
          webhookSignature = (evs, Inl e)"
    using that by (simp add: verifyWebhookSignature_def)
  show "result (validateWebhookTimestamp Date_now timestamp thresholdMinutes) = Inr False"
    if "parseInt timestamp = NaN"
    using that by (rule validate_NaN)
  show "verifyWebhookSignature cfg webhookId webhookTimestamp requestBody webhookSignature
          = ([ConsoleError TypeError], Inr False)"
    if "webhookSecret cfg \<noteq> [] \<and> secretBytes cfg = Inr key"
    using that by (simp add: verify_outcome)
qed (rule verify_false)+

theorem never_throws_witness:
  "verifyWebhookSignature_try crypto
       (YOCO_CONFIG [''YOCO_WEBHOOK_SECRET'' \<mapsto> str ''whsec_ZmFrZXNlY3JldGtleQ==''])
       (str ''evt_1'') (str ''1700000000'') (str ''{\"type\":\"payment.succeeded\"}'')
       (str '' v1,c2hvcnQ'') = ([], Inl TypeError)
   \<and> verifyWebhookSignature
       (YOCO_CONFIG [''YOCO_WEBHOOK_SECRET'' \<mapsto> str ''whsec_ZmFrZXNlY3JldGtleQ==''])
       (str ''evt_1'') (str ''1700000000'') (str ''{\"type\":\"payment.succeeded\"}'')
       (str '' v1,c2hvcnQ'') = ([] @ [ConsoleError TypeError], Inr False)
   \<and> parseInt (str ''soon'') = NaN
   \<and> result (validateWebhookTimestamp 1700000000000 (str ''soon'') None) = Inr False
   \<and> cu CHR '','' \<notin> set (str ''v1'')
   \<and> result (verifyWebhookSignature
         (YOCO_CONFIG [''YOCO_WEBHOOK_SECRET'' \<mapsto> str ''whsec_ZmFrZXNlY3JldGtleQ==''])
         (str ''evt_1'') (str ''1700000000'') (str ''{\"type\":\"payment.succeeded\"}'')
         (str ''v1'')) = Inr False
   \<and> cu CHR '' '' \<in> set (str '' v1,c2hvcnQ'')
   \<and> result (verifyWebhookSignature
         (YOCO_CONFIG [''YOCO_WEBHOOK_SECRET'' \<mapsto> str ''whsec_ZmFrZXNlY3JldGtleQ==''])
         (str ''evt_1'') (str ''1700000000'') (str ''{\"type\":\"payment.succeeded\"}'')
         (str '' v1,c2hvcnQ'')) = Inr False
   \<and> secretBytes (YOCO_CONFIG [''YOCO_WEBHOOK_SECRET'' \<mapsto> str ''whsec'']) = Inl TypeError
   \<and> result (verifyWebhookSignature (YOCO_CONFIG [''YOCO_WEBHOOK_SECRET'' \<mapsto> str ''whsec''])
         (str ''evt_1'') (str ''1700000000'') (str ''{\"type\":\"payment.succeeded\"}'')
         (str ''v1,VnEXwA/YbB3oDDdx74EGjzjNUIKuSFeTyFrnnCUeUHU='')) = Inr False
   \<and> primarySignature (str ''v1,c2hvcnQ'') = Inr (Some (str ''c2hvcnQ''))
   \<and> length (utf8_encode (str ''c2hvcnQ''))
       \<noteq> length (utf8_encode (createHmac_sha256_base64
                    (base64_decode (str ''ZmFrZXNlY3JldGtleQ==''))
                    (signedContent (str ''evt_1'') (str ''1700000000'')
                       (str ''{\"type\":\"payment.succeeded\"}''))))
   \<and> result (verifyWebhookSignature
         (YOCO_CONFIG [''YOCO_WEBHOOK_SECRET'' \<mapsto> str ''whsec_ZmFrZXNlY3JldGtleQ==''])
         (str ''evt_1'') (str ''1700000000'') (str ''{\"type\":\"payment.succeeded\"}'')
         (str ''v1,c2hvcnQ'')) = Inr False"
proof -
  let ?cfg = "YOCO_CONFIG [''YOCO_WEBHOOK_SECRET'' \<mapsto> str ''whsec_ZmFrZXNlY3JldGtleQ=='']"
  let ?none = "YOCO_CONFIG [''YOCO_WEBHOOK_SECRET'' \<mapsto> str ''whsec'']"
  let ?id = "str ''evt_1''"
  let ?ts = "str ''1700000000''"
  let ?body = "str ''{\"type\":\"payment.succeeded\"}''"
  let ?hdr = "str ''v1,VnEXwA/YbB3oDDdx74EGjzjNUIKuSFeTyFrnnCUeUHU=''"
  let ?key = "base64_decode (str ''ZmFrZXNlY3JldGtleQ=='')"
  have t: "verifyWebhookSignature_try crypto ?cfg ?id ?ts ?body (str '' v1,c2hvcnQ'')
             = ([], Inl TypeError)"
    using scenario_secret_set
    by (simp add: verifyWebhookSignature_try_def scenario_config scenario_secretBytes
        crypto_def)
  have q: "parseInt (str ''soon'') = NaN" by code_simp
  have c: "cu CHR '','' \<notin> set (str ''v1'')" by (simp add: str_def cu_def)
  have w: "cu CHR '' '' \<in> set (str '' v1,c2hvcnQ'')" by (simp add: str_def)
  have s: "webhookSecret ?none = str ''whsec''"
    by (simp add: YOCO_CONFIG_def env_or_empty_def)
  have i: "js_index (js_split (cu CHR ''_'') (str ''whsec'')) 1 = None" by code_simp
  have u: "secretBytes ?none = Inl TypeError"
    by (simp only: secretBytes_def s i Buffer_from_base64_def option.case)
  have p: "primarySignature (str ''v1,c2hvcnQ'') = Inr (Some (str ''c2hvcnQ''))"
    by code_simp
  have l: "length (utf8_encode (str ''c2hvcnQ''))
       \<noteq> length (utf8_encode (createHmac_sha256_base64 ?key (signedContent ?id ?ts ?body)))"
    unfolding scenario_expected by code_simp
  note a = never_throws [of ?cfg ?id ?ts ?body "str '' v1,c2hvcnQ''" 1700000000000
      "str ''soon''" None "[]" TypeError]
  note b = never_throws [of ?cfg ?id ?ts ?body "str ''v1''"]
  note d = never_throws [of ?none ?id ?ts ?body ?hdr _ _ _ _ _ TypeError]
  note f = never_throws [of ?cfg ?id ?ts ?body "str ''v1,c2hvcnQ''" _ _ _ _ _ _ ?key
      "str ''c2hvcnQ''"]
  from a t q w have 1: "verifyWebhookSignature ?cfg ?id ?ts ?body (str '' v1,c2hvcnQ'')
                          = ([] @ [ConsoleError TypeError], Inr False)"
    and 2: "result (validateWebhookTimestamp 1700000000000 (str ''soon'') None) = Inr False"
    and 3: "result (verifyWebhookSignature ?cfg ?id ?ts ?body (str '' v1,c2hvcnQ''))
              = Inr False"
    by blast+
  from b c have 4: "result (verifyWebhookSignature ?cfg ?id ?ts ?body (str ''v1'')) = Inr False"
    by blast
  from d u have 5: "result (verifyWebhookSignature ?none ?id ?ts ?body ?hdr) = Inr False"
    by blast
  from f scenario_secretBytes p l
  have 6: "result (verifyWebhookSignature ?cfg ?id ?ts ?body (str ''v1,c2hvcnQ'')) = Inr False"
    by blast
  from t 1 q 2 c 4 w 3 u 5 p l 6 show ?thesis by blast
qed

subsection \<open>Timestamps with trailing characters\<close>

text \<open>
  Claim C9, as stated, fails in two ways. A string that begins with \<open>0x\<close> or \<open>0X\<close> is
  read as hexadecimal: \<open>0x\<close> has the leading digit \<open>0\<close>, which denotes a time
  within a window of 30000000 minutes around 1700000000000, and is rejected, since
  \<open>parseInt\<close> finds no hexadecimal digit and gives \<open>NaN\<close>. And where doubles are no
  longer exact the window itself is off: the leading digits of \<open>9951380599495040abc\<close>
  denote a time exactly 165856314991584 minutes after 1700000000000, and a threshold of as
  many minutes rejects it.
\<close>

theorem hexadecimal_prefix_read:
  "takeWhile (is_digit 10) (str ''0x'') = str ''0''
   \<and> digits_value 10 (str ''0'') = 0
   \<and> \<bar>1700000000000 - 0 * 1000\<bar> \<le> (30000000 * 60 * 1000 :: int)
   \<and> result (validateWebhookTimestamp 1700000000000 (str ''0x'') (Some (Dbl 30000000 0)))
       = Inr False
   \<and> takeWhile (is_digit 10) (str ''9951380599495040abc'') = str ''9951380599495040''
   \<and> digits_value 10 (str ''9951380599495040'') = 9951380599495040
   \<and> \<bar>1700000000000 - 9951380599495040 * 1000\<bar> \<le> (165856314991584 * 60 * 1000 :: int)
   \<and> result (validateWebhookTimestamp 1700000000000 (str ''9951380599495040abc'')
                (Some (Dbl 165856314991584 0))) = Inr False"
proof -
  have a: "takeWhile (is_digit 10) (str ''0x'') = str ''0''" by code_simp
  have b: "digits_value 10 (str ''0'') = 0" by code_simp
  have c: "result (validateWebhookTimestamp 1700000000000 (str ''0x'')
                     (Some (Dbl 30000000 0))) = Inr False" by code_simp
  have d: "takeWhile (is_digit 10) (str ''9951380599495040abc'') = str ''9951380599495040''"
    by code_simp
  have e: "digits_value 10 (str ''9951380599495040'') = 9951380599495040" by code_simp
  have f: "result (validateWebhookTimestamp 1700000000000 (str ''9951380599495040abc'')
                     (Some (Dbl 165856314991584 0))) = Inr False" by code_simp
  from a b c d e f show ?thesis by simp
qed

text \<open>
  Claim C9, amended. For every string that starts with decimal digits and does not begin
  with \<open>0x\<close> or \<open>0X\<close>, \<open>validateWebhookTimestamp\<close> reads the leading digits only:
  when they denote a Unix time within the freshness window the check returns true,
  whatever follows them (\<open>1700000000abc\<close> when now is near 1700000000), provided that
  time in milliseconds, the current time, their difference and the threshold in
  milliseconds are below \<open>2^53\<close> in magnitude. A string from which \<open>parseInt\<close> reads no
  number is rejected.
\<close>

theorem leading_digits_used:
  "(takeWhile (is_digit 10) timestamp \<noteq> [] \<and> take 2 timestamp \<noteq> str ''0x''
      \<and> take 2 timestamp \<noteq> str ''0X''
      \<and> \<bar>digits_value 10 (takeWhile (is_digit 10) timestamp) * 1000\<bar> < 2 ^ 53
      \<and> \<bar>Date_now\<bar> < 2 ^ 53
      \<and> \<bar>Date_now - digits_value 10 (takeWhile (is_digit 10) timestamp) * 1000\<bar> < 2 ^ 53
      \<and> \<bar>m * 60 * 1000\<bar> < 2 ^ 53
      \<and> \<bar>Date_now - digits_value 10 (takeWhile (is_digit 10) timestamp) * 1000\<bar>
          \<le> m * 60 * 1000
     \<longrightarrow> result (validateWebhookTimestamp Date_now timestamp (Some (Dbl m 0))) = Inr True)
   \<and> (takeWhile (is_digit 10) timestamp \<noteq> [] \<and> take 2 timestamp \<noteq> str ''0x''
      \<and> take 2 timestamp \<noteq> str ''0X''
      \<and> \<bar>digits_value 10 (takeWhile (is_digit 10) timestamp) * 1000\<bar> < 2 ^ 53
      \<and> \<bar>Date_now\<bar> < 2 ^ 53
      \<and> \<bar>Date_now - digits_value 10 (takeWhile (is_digit 10) timestamp) * 1000\<bar>
          \<le> 3 * 60 * 1000
     \<longrightarrow> result (validateWebhookTimestamp Date_now timestamp None) = Inr True)
   \<and> (parseInt timestamp = NaN
     \<longrightarrow> result (validateWebhookTimestamp Date_now timestamp thresholdMinutes) = Inr False)"
proof -
  define t where "t = digits_value 10 (takeWhile (is_digit 10) timestamp)"
  have p: "parseInt timestamp = Dbl t 0"
    if "takeWhile (is_digit 10) timestamp \<noteq> []" "take 2 timestamp \<noteq> str ''0x''"
      "take 2 timestamp \<noteq> str ''0X''" "\<bar>t * 1000\<bar> < 2 ^ 53"
  proof -
    have "\<bar>t\<bar> \<le> \<bar>t * 1000\<bar>" by (simp add: abs_mult)
    with that(4) have "\<bar>t\<bar> < 2 ^ 53" by linarith
    then show ?thesis
      using parseInt_decimal [OF that(1-3)] by (simp add: t_def round_exact)
  qed
  have a: "result (validateWebhookTimestamp Date_now timestamp (Some (Dbl m 0))) = Inr True"
    if "takeWhile (is_digit 10) timestamp \<noteq> []" "take 2 timestamp \<noteq> str ''0x''"
      "take 2 timestamp \<noteq> str ''0X''" "\<bar>t * 1000\<bar> < 2 ^ 53" "\<bar>Date_now\<bar> < 2 ^ 53"
      "\<bar>Date_now - t * 1000\<bar> < 2 ^ 53" "\<bar>m * 60 * 1000\<bar> < 2 ^ 53"
      "\<bar>Date_now - t * 1000\<bar> \<le> m * 60 * 1000"
    using validate_exact(2) [OF p [OF that(1-4)] that(4-6) that(7)] that(8) by simp
  have b: "result (validateWebhookTimestamp Date_now timestamp None) = Inr True"
    if "takeWhile (is_digit 10) timestamp \<noteq> []" "take 2 timestamp \<noteq> str ''0x''"
      "take 2 timestamp \<noteq> str ''0X''" "\<bar>t * 1000\<bar> < 2 ^ 53" "\<bar>Date_now\<bar> < 2 ^ 53"
      "\<bar>Date_now - t * 1000\<bar> \<le> 3 * 60 * 1000"
  proof -
    from that(6) have "\<bar>Date_now - t * 1000\<bar> < 2 ^ 53" by simp
    from validate_exact(1) [OF p [OF that(1-4)] that(4,5) this] that(6) show ?thesis by simp
  qed
  from a b show ?thesis
    unfolding t_def by (auto simp: validate_NaN simp del: takeWhile.simps)
qed

theorem leading_digits_used_witness:
  "takeWhile (is_digit 10) (str ''1700000000abc'') = str ''1700000000''
   \<and> digits_value 10 (str ''1700000000'') = 1700000000
   \<and> take 2 (str ''1700000000abc'') \<noteq> str ''0x''
   \<and> take 2 (str ''1700000000abc'') \<noteq> str ''0X''
   \<and> result (validateWebhookTimestamp 1700000060000 (str ''1700000000abc'') None) = Inr True
   \<and> result (validateWebhookTimestamp 1700000060000 (str ''1700000000abc'') (Some (Dbl 5 0)))
       = Inr True
   \<and> parseInt (str ''abc1700000000'') = NaN
   \<and> result (validateWebhookTimestamp 1700000060000 (str ''abc1700000000'') None) = Inr False"
proof -
  have a: "takeWhile (is_digit 10) (str ''1700000000abc'') = str ''1700000000''" by code_simp
  have b: "digits_value 10 (str ''1700000000'') = 1700000000" by code_simp
  have c: "take 2 (str ''1700000000abc'') \<noteq> str ''0x''"
    "take 2 (str ''1700000000abc'') \<noteq> str ''0X''"
    by (simp_all add: str_def cu_def)
  have n: "parseInt (str ''abc1700000000'') = NaN" by code_simp
  have e: "str ''1700000000'' \<noteq> []" by (simp add: str_def)
  from leading_digits_used [of "str ''1700000000abc''" 1700000060000 5 None] c e
  have 1: "result (validateWebhookTimestamp 1700000060000 (str ''1700000000abc'') None)
             = Inr True"
    and 2: "result (validateWebhookTimestamp 1700000060000 (str ''1700000000abc'')
                      (Some (Dbl 5 0))) = Inr True"
    unfolding a b by simp_all
  from leading_digits_used [of "str ''abc1700000000''" 1700000060000 _ None] n
  have 3: "result (validateWebhookTimestamp 1700000060000 (str ''abc1700000000'') None)
             = Inr False"
    by blast
  from a b c 1 2 n 3 show ?thesis by blast
qed

end
